theory Spec2Isabelle
  imports Main
begin

section \<open>Data model\<close>

text \<open>
  The routes of \<^verbatim>\<open>main.py\<close> pass sail configurations around as dictionaries with a
  fixed set of keys. The dictionary \<^verbatim>\<open>pending\<close> built by \<^verbatim>\<open>toggle_sail\<close> and
  \<^verbatim>\<open>toggle_staysail\<close> has the four keys \<^verbatim>\<open>main\<close>, \<^verbatim>\<open>headsail\<close>, \<^verbatim>\<open>downwind\<close> and
  \<^verbatim>\<open>staysail_mode\<close>; the dictionary returned by \<^verbatim>\<open>get_current_sail_config\<close> has the
  same four keys and \<^verbatim>\<open>comment\<close>. Both are records here, the second an extension of the
  first, so that one function can read the four shared fields of either. The three sail
  fields are strings; \<^verbatim>\<open>staysail_mode\<close> is a boolean, which the routes compute by
  comparing the submitted text with \<^verbatim>\<open>true\<close> and the store writes as a boolean field.
\<close>

record pending =
  main :: string
  headsail :: string
  downwind :: string
  staysail_mode :: bool

record sail_config = pending +
  comment :: string

text \<open>
  The submitted form: a dictionary from field names to strings, read with
  \<^verbatim>\<open>form.get(key, default)\<close>.
\<close>

type_synonym form = "string \<rightharpoonup> string"

definition form_get :: "form \<Rightarrow> string \<Rightarrow> string \<Rightarrow> string" where
  "form_get frm key dflt = (case frm key of None \<Rightarrow> dflt | Some v \<Rightarrow> v)"

text \<open>
  The display-name table \<^verbatim>\<open>SAIL_DISPLAY\<close> is read from the boat's configuration file
  at start-up; the functions below take it as an argument. \<^verbatim>\<open>SAIL_DISPLAY.get(k, k)\<close>
  is the mapped name, or the identifier itself when the table has no entry.
\<close>

type_synonym display = "string \<rightharpoonup> string"

definition display_get :: "display \<Rightarrow> string \<Rightarrow> string \<Rightarrow> string" where
  "display_get tbl key dflt = (case tbl key of None \<Rightarrow> dflt | Some v \<Rightarrow> v)"

text \<open>
  The four reads at the head of \<^verbatim>\<open>toggle_sail\<close> (\<^verbatim>\<open>current_main\<close>,
  \<^verbatim>\<open>current_headsail\<close>, \<^verbatim>\<open>current_downwind\<close>, \<^verbatim>\<open>current_staysail\<close>), as one record.
\<close>

definition current_pending :: "form \<Rightarrow> pending" where
  "current_pending frm =
     \<lparr> main = form_get frm ''pending_main'' ''DOWN'',
       headsail = form_get frm ''pending_headsail'' '''',
       downwind = form_get frm ''pending_downwind'' '''',
       staysail_mode = (form_get frm ''pending_staysail'' ''false'' = ''true'') \<rparr>"

section \<open>The toggle logic\<close>

text \<open>
  The body of the route \<^verbatim>\<open>toggle_sail\<close> between the form reads and the template
  response: from the current pending values, the category and the value of the request
  path it computes \<^verbatim>\<open>new_main\<close>, \<^verbatim>\<open>new_headsail\<close>, \<^verbatim>\<open>new_downwind\<close> and
  \<^verbatim>\<open>new_staysail\<close> and packs them into the dictionary \<^verbatim>\<open>pending\<close>. The argument
  \<open>cur\<close> holds \<^verbatim>\<open>current_main\<close>, \<^verbatim>\<open>current_headsail\<close>, \<^verbatim>\<open>current_downwind\<close> and
  \<^verbatim>\<open>current_staysail\<close>. No branch raises.
\<close>

definition toggle_sail :: "pending \<Rightarrow> string \<Rightarrow> string \<Rightarrow> pending" where
  "toggle_sail cur category value =
     (if category = ''main'' then
        \<lparr> main = (if value \<noteq> main cur then value else ''DOWN''),
          headsail = headsail cur,
          downwind = downwind cur,
          staysail_mode = staysail_mode cur \<rparr>
      else if category = ''headsail'' then
        (let new_headsail = (if value = headsail cur then '''' else value) in
         if new_headsail = '''' then
           \<lparr> main = main cur, headsail = new_headsail,
             downwind = downwind cur, staysail_mode = False \<rparr>
         else if new_headsail = ''JIB'' \<and> downwind cur = ''REACHING_SPI'' then
           \<lparr> main = main cur, headsail = new_headsail,
             downwind = downwind cur, staysail_mode = staysail_mode cur \<rparr>
         else
           \<lparr> main = main cur, headsail = new_headsail,
             downwind = '''', staysail_mode = False \<rparr>)
      else if category = ''downwind'' then
        (let new_downwind = (if value = downwind cur then '''' else value) in
         if new_downwind = '''' then
           \<lparr> main = main cur, headsail = headsail cur,
             downwind = new_downwind, staysail_mode = False \<rparr>
         else if new_downwind = ''REACHING_SPI'' \<and> headsail cur = ''JIB'' then
           \<lparr> main = main cur, headsail = headsail cur,
             downwind = new_downwind, staysail_mode = staysail_mode cur \<rparr>
         else
           \<lparr> main = main cur, headsail = '''',
             downwind = new_downwind, staysail_mode = False \<rparr>)
      else
        \<lparr> main = main cur, headsail = headsail cur,
          downwind = downwind cur, staysail_mode = staysail_mode cur \<rparr>)"

text \<open>
  The route \<^verbatim>\<open>toggle_staysail\<close> builds its \<^verbatim>\<open>pending\<close> dictionary straight from the
  form: the three sail fields as submitted, and \<^verbatim>\<open>staysail_mode\<close> true exactly when
  the submitted \<^verbatim>\<open>pending_staysail\<close> is not the text \<^verbatim>\<open>true\<close>.
\<close>

definition toggle_staysail :: "form \<Rightarrow> pending" where
  "toggle_staysail frm =
     \<lparr> main = form_get frm ''pending_main'' ''DOWN'',
       headsail = form_get frm ''pending_headsail'' '''',
       downwind = form_get frm ''pending_downwind'' '''',
       staysail_mode = (form_get frm ''pending_staysail'' ''false'' \<noteq> ''true'') \<rparr>"

text \<open>
  The expression \<^verbatim>\<open>has_changes\<close>, the same in \<^verbatim>\<open>toggle_sail\<close> and
  \<^verbatim>\<open>toggle_staysail\<close>: it indexes the four shared keys of the pending and of the
  committed dictionary and nothing else.
\<close>

definition has_changes :: "'a pending_scheme \<Rightarrow> 'b pending_scheme \<Rightarrow> bool" where
  "has_changes pnd committed \<longleftrightarrow>
     main pnd \<noteq> main committed
     \<or> headsail pnd \<noteq> headsail committed
     \<or> downwind pnd \<noteq> downwind committed
     \<or> staysail_mode pnd \<noteq> staysail_mode committed"

section \<open>The summary line\<close>

text \<open>
  Python's \<^verbatim>\<open>x or d\<close> on strings: \<^verbatim>\<open>d\<close> when \<^verbatim>\<open>x\<close> is empty, \<^verbatim>\<open>x\<close> otherwise.
  (A key that is missing reads as \<^verbatim>\<open>None\<close>, which \<^verbatim>\<open>or\<close> treats like the empty
  string; the records here have every key.)
\<close>

definition or_default :: "string \<Rightarrow> string \<Rightarrow> string" where
  "or_default x d = (if x = '''' then d else x)"

text \<open>\<^verbatim>\<open>sep.join(parts)\<close>.\<close>

fun join :: "string \<Rightarrow> string list \<Rightarrow> string" where
  "join sep [] = ''''"
| "join sep [x] = x"
| "join sep (x # y # ys) = x @ sep @ join sep (y # ys)"

text \<open>
  \<^verbatim>\<open>format_config_summary\<close>, statement by statement. The local variables \<^verbatim>\<open>main\<close>,
  \<^verbatim>\<open>headsail\<close> and \<^verbatim>\<open>downwind\<close> of the source are reassigned on the way; \<open>main1\<close>,
  \<open>headsail1\<close> and \<open>downwind1\<close> are their values when the final test is made, and
  \<open>parts1\<close>, \<open>parts2\<close>, \<open>parts3\<close> the list after each of the three blocks.
\<close>

definition format_config_summary :: "display \<Rightarrow> 'a pending_scheme \<Rightarrow> string" where
  "format_config_summary SAIL_DISPLAY config =
     (let main0 = or_default (main config) ''DOWN'';
          main_down = (main0 = ''DOWN'' \<or> main0 = ''None'');
          main1 = (if main_down then ''DOWN'' else main0);
          parts1 = (if main_down then [''Main: DOWN''] else [''Main: '' @ main0]);
          headsail0 = or_default (headsail config) '''';
          headsail_set = (headsail0 \<noteq> '''' \<and> headsail0 \<noteq> ''None'');
          name = display_get SAIL_DISPLAY headsail0 headsail0;
          name1 = (if staysail_mode config then name @ '' (S)'' else name);
          parts2 = (if headsail_set then parts1 @ [name1] else parts1);
          headsail1 = (if headsail_set then headsail0 else '''');
          downwind0 = or_default (downwind config) '''';
          downwind_set = (downwind0 \<noteq> '''' \<and> downwind0 \<noteq> ''None'');
          parts3 = (if downwind_set
                    then parts2 @ [display_get SAIL_DISPLAY downwind0 downwind0]
                    else parts2);
          downwind1 = (if downwind_set then downwind0 else '''')
      in if headsail1 = '''' \<and> downwind1 = '''' \<and> main1 = ''DOWN''
         then ''All sails down''
         else join '' + '' parts3)"

section \<open>Properties stated by the specification\<close>

text \<open>
  The allowed co-occurrence of a headsail and a downwind sail, and the rule that staysail
  mode goes with it only.
\<close>

definition allowed_pair :: "'a pending_scheme \<Rightarrow> bool" where
  "allowed_pair c \<longleftrightarrow> headsail c = ''JIB'' \<and> downwind c = ''REACHING_SPI''"

definition staysail_valid :: "'a pending_scheme \<Rightarrow> bool" where
  "staysail_valid c \<longleftrightarrow> (staysail_mode c \<longrightarrow> allowed_pair c)"

text \<open>
  The summary as the specification words it, for comparison with
  \<open>format_config_summary\<close>: the sentinel of \<open>main\<close> is the text \<^verbatim>\<open>DOWN\<close>, a headsail
  or downwind sail is unset when it is the empty string, and the constant answer is given
  when main is the sentinel and both sails are unset.
\<close>

definition summary_as_specified :: "display \<Rightarrow> 'a pending_scheme \<Rightarrow> string" where
  "summary_as_specified tbl c =
     (if main c = ''DOWN'' \<and> headsail c = '''' \<and> downwind c = ''''
      then ''All sails down''
      else join '' + ''
        ([if main c = ''DOWN'' then ''Main: DOWN'' else ''Main: '' @ main c]
         @ (if headsail c = '''' then []
            else [display_get tbl (headsail c) (headsail c)
                  @ (if staysail_mode c then '' (S)'' else '''')])
         @ (if downwind c = '''' then []
            else [display_get tbl (downwind c) (downwind c)])))"

text \<open>
  A configuration with the text \<^verbatim>\<open>None\<close> read as absence: a main that is empty or
  \<^verbatim>\<open>None\<close> becomes the sentinel, a headsail or downwind that is \<^verbatim>\<open>None\<close> becomes
  empty.
\<close>

definition none_as_absent :: "'a pending_scheme \<Rightarrow> 'a pending_scheme" where
  "none_as_absent c =
     c\<lparr> main := (if main c = '''' \<or> main c = ''None'' then ''DOWN'' else main c),
        headsail := (if headsail c = ''None'' then '''' else headsail c),
        downwind := (if downwind c = ''None'' then '''' else downwind c) \<rparr>"

section \<open>Reading the form\<close>

lemma toggle_staysail_flips:
  "toggle_staysail frm =
     (current_pending frm)\<lparr>staysail_mode := \<not> staysail_mode (current_pending frm)\<rparr>"
  by (simp add: toggle_staysail_def current_pending_def)

lemma current_pending_onto:
  "current_pending
     [''pending_main'' \<mapsto> main p, ''pending_headsail'' \<mapsto> headsail p,
      ''pending_downwind'' \<mapsto> downwind p,
      ''pending_staysail'' \<mapsto> (if staysail_mode p then ''true'' else ''false'')] = p"
  by (cases p) (simp add: current_pending_def form_get_def)

section \<open>Toggling the main sail\<close>

text \<open>
  Claim C6. Toggling category \<^verbatim>\<open>main\<close> with a value sets \<open>main\<close> to the sentinel
  \<^verbatim>\<open>DOWN\<close> when the value is the current main and to the value otherwise, and leaves
  \<open>headsail\<close>, \<open>downwind\<close> and \<open>staysail_mode\<close> as they were.
\<close>

theorem toggle_main_result:
  "main (toggle_sail p ''main'' v) = (if v = main p then ''DOWN'' else v)
   \<and> headsail (toggle_sail p ''main'' v) = headsail p
   \<and> downwind (toggle_sail p ''main'' v) = downwind p
   \<and> staysail_mode (toggle_sail p ''main'' v) = staysail_mode p"
  by (simp add: toggle_sail_def)

theorem toggle_main_result_witness:
  "main (toggle_sail \<lparr>main = ''FULL'', headsail = ''JIB'', downwind = '''', staysail_mode = False\<rparr>
           ''main'' ''FULL'') = ''DOWN''
   \<and> main (toggle_sail \<lparr>main = ''FULL'', headsail = ''JIB'', downwind = '''', staysail_mode = False\<rparr>
           ''main'' ''REEF1'') = ''REEF1''
   \<and> headsail (toggle_sail \<lparr>main = ''FULL'', headsail = ''JIB'', downwind = '''', staysail_mode = False\<rparr>
           ''main'' ''FULL'') = ''JIB''"
  using toggle_main_result
    [where v = "''FULL''"
       and p = "\<lparr>main = ''FULL'', headsail = ''JIB'', downwind = '''', staysail_mode = False\<rparr>"]
    toggle_main_result
    [where v = "''REEF1''"
       and p = "\<lparr>main = ''FULL'', headsail = ''JIB'', downwind = '''', staysail_mode = False\<rparr>"]
  by simp

section \<open>Toggling the headsail and the downwind sail\<close>

text \<open>
  Claim C1. Toggling category \<^verbatim>\<open>headsail\<close> keeps \<open>main\<close>; the new headsail is empty
  when the value is the current headsail and the value otherwise; if the new headsail is
  empty, \<open>downwind\<close> is kept and staysail mode is off; else if the new headsail is
  \<^verbatim>\<open>JIB\<close> and the current downwind is \<^verbatim>\<open>REACHING_SPI\<close>, \<open>downwind\<close> and staysail mode
  are both kept; else \<open>downwind\<close> is emptied and staysail mode is off.
\<close>

theorem toggle_headsail_result:
  "main (toggle_sail p ''headsail'' v) = main p
   \<and> headsail (toggle_sail p ''headsail'' v) = (if v = headsail p then '''' else v)
   \<and> (if headsail (toggle_sail p ''headsail'' v) = ''''
        then downwind (toggle_sail p ''headsail'' v) = downwind p
             \<and> staysail_mode (toggle_sail p ''headsail'' v) = False
      else if headsail (toggle_sail p ''headsail'' v) = ''JIB''
              \<and> downwind p = ''REACHING_SPI''
        then downwind (toggle_sail p ''headsail'' v) = downwind p
             \<and> staysail_mode (toggle_sail p ''headsail'' v) = staysail_mode p
      else downwind (toggle_sail p ''headsail'' v) = ''''
             \<and> staysail_mode (toggle_sail p ''headsail'' v) = False)"
  by (simp add: toggle_sail_def Let_def)

theorem toggle_headsail_result_witness:
  "toggle_sail
     \<lparr>main = ''FULL'', headsail = '''', downwind = ''REACHING_SPI'', staysail_mode = True\<rparr>
     ''headsail'' ''JIB''
   = \<lparr>main = ''FULL'', headsail = ''JIB'', downwind = ''REACHING_SPI'', staysail_mode = True\<rparr>
   \<and> toggle_sail
     \<lparr>main = ''FULL'', headsail = ''JIB'', downwind = ''REACHING_SPI'', staysail_mode = True\<rparr>
     ''headsail'' ''GENOA''
   = \<lparr>main = ''FULL'', headsail = ''GENOA'', downwind = '''', staysail_mode = False\<rparr>"
  using toggle_headsail_result
    [where v = "''JIB''"
       and p = "\<lparr>main = ''FULL'', headsail = '''', downwind = ''REACHING_SPI'',
                 staysail_mode = True\<rparr>"]
    toggle_headsail_result
    [where v = "''GENOA''"
       and p = "\<lparr>main = ''FULL'', headsail = ''JIB'', downwind = ''REACHING_SPI'',
                 staysail_mode = True\<rparr>"]
  by (simp add: toggle_sail_def)

text \<open>
  Claim C2. Toggling category \<^verbatim>\<open>downwind\<close> is the same with the roles swapped: \<open>main\<close>
  is kept; the new downwind is empty when the value is the current downwind and the value
  otherwise; if the new downwind is empty, \<open>headsail\<close> is kept and staysail mode is off;
  else if the new downwind is \<^verbatim>\<open>REACHING_SPI\<close> and the current headsail is \<^verbatim>\<open>JIB\<close>,
  \<open>headsail\<close> and staysail mode are both kept; else \<open>headsail\<close> is emptied and staysail
  mode is off.
\<close>

theorem toggle_downwind_result:
  "main (toggle_sail p ''downwind'' v) = main p
   \<and> downwind (toggle_sail p ''downwind'' v) = (if v = downwind p then '''' else v)
   \<and> (if downwind (toggle_sail p ''downwind'' v) = ''''
        then headsail (toggle_sail p ''downwind'' v) = headsail p
             \<and> staysail_mode (toggle_sail p ''downwind'' v) = False
      else if downwind (toggle_sail p ''downwind'' v) = ''REACHING_SPI''
              \<and> headsail p = ''JIB''
        then headsail (toggle_sail p ''downwind'' v) = headsail p
             \<and> staysail_mode (toggle_sail p ''downwind'' v) = staysail_mode p
      else headsail (toggle_sail p ''downwind'' v) = ''''
             \<and> staysail_mode (toggle_sail p ''downwind'' v) = False)"
  by (simp add: toggle_sail_def Let_def)

theorem toggle_downwind_result_witness:
  "toggle_sail
     \<lparr>main = ''FULL'', headsail = ''JIB'', downwind = '''', staysail_mode = False\<rparr>
     ''downwind'' ''REACHING_SPI''
   = \<lparr>main = ''FULL'', headsail = ''JIB'', downwind = ''REACHING_SPI'', staysail_mode = False\<rparr>
   \<and> toggle_sail
     \<lparr>main = ''FULL'', headsail = ''JIB'', downwind = '''', staysail_mode = False\<rparr>
     ''downwind'' ''ASYM''
   = \<lparr>main = ''FULL'', headsail = '''', downwind = ''ASYM'', staysail_mode = False\<rparr>"
  using toggle_downwind_result
    [where v = "''REACHING_SPI''"
       and p = "\<lparr>main = ''FULL'', headsail = ''JIB'', downwind = '''',
                 staysail_mode = False\<rparr>"]
    toggle_downwind_result
    [where v = "''ASYM''"
       and p = "\<lparr>main = ''FULL'', headsail = ''JIB'', downwind = '''',
                 staysail_mode = False\<rparr>"]
  by (simp add: toggle_sail_def)

text \<open>
  Claim C4. When the configuration returned by a \<^verbatim>\<open>headsail\<close> or \<^verbatim>\<open>downwind\<close> toggle
  does not have the pair (\<^verbatim>\<open>JIB\<close>, \<^verbatim>\<open>REACHING_SPI\<close>), its headsail and downwind are not
  both non-empty.
\<close>

theorem toggle_exclusive_unless_allowed:
  "category \<in> {''headsail'', ''downwind''} \<Longrightarrow>
   \<not> (headsail (toggle_sail p category v) = ''JIB''
      \<and> downwind (toggle_sail p category v) = ''REACHING_SPI'') \<Longrightarrow>
   \<not> (headsail (toggle_sail p category v) \<noteq> ''''
      \<and> downwind (toggle_sail p category v) \<noteq> '''')"
  by (auto simp add: toggle_sail_def Let_def split: if_splits)

theorem toggle_exclusive_unless_allowed_witness:
  "headsail (toggle_sail
      \<lparr>main = ''FULL'', headsail = ''JIB'', downwind = ''REACHING_SPI'', staysail_mode = True\<rparr>
      ''headsail'' ''GENOA'') = ''GENOA''
   \<and> downwind (toggle_sail
      \<lparr>main = ''FULL'', headsail = ''JIB'', downwind = ''REACHING_SPI'', staysail_mode = True\<rparr>
      ''headsail'' ''GENOA'') = ''''"
  using toggle_exclusive_unless_allowed
    [where category = "''headsail''" and v = "''GENOA''"
       and p = "\<lparr>main = ''FULL'', headsail = ''JIB'', downwind = ''REACHING_SPI'',
                 staysail_mode = True\<rparr>"]
  by (simp add: toggle_sail_def)

section \<open>Unrecognised categories\<close>

text \<open>
  Claim C9. For a category other than \<^verbatim>\<open>main\<close>, \<^verbatim>\<open>headsail\<close> and \<^verbatim>\<open>downwind\<close> the
  toggle returns the current pending configuration, all four fields as they were. The
  toggle has no failing branch for any category and value: \<open>toggle_sail\<close> returns a
  configuration on every input, and the form is read with defaults.
\<close>

theorem toggle_unknown_category:
  "category \<notin> {''main'', ''headsail'', ''downwind''} \<Longrightarrow>
   toggle_sail p category v = p
   \<and> main (toggle_sail p category v) = main p
   \<and> headsail (toggle_sail p category v) = headsail p
   \<and> downwind (toggle_sail p category v) = downwind p
   \<and> staysail_mode (toggle_sail p category v) = staysail_mode p"
  by (simp add: toggle_sail_def)

theorem toggle_unknown_category_witness:
  "toggle_sail
     \<lparr>main = ''FULL'', headsail = ''JIB'', downwind = ''REACHING_SPI'', staysail_mode = True\<rparr>
     ''staysail'' ''GENOA''
   = \<lparr>main = ''FULL'', headsail = ''JIB'', downwind = ''REACHING_SPI'', staysail_mode = True\<rparr>"
  using toggle_unknown_category
    [where category = "''staysail''" and v = "''GENOA''"
       and p = "\<lparr>main = ''FULL'', headsail = ''JIB'', downwind = ''REACHING_SPI'',
                 staysail_mode = True\<rparr>"]
  by simp

section \<open>Staysail mode and the allowed pair\<close>

lemma staysail_valid_sail_toggle:
  "category \<in> {''headsail'', ''downwind''} \<Longrightarrow> staysail_valid (toggle_sail p category v)"
  by (auto simp add: toggle_sail_def staysail_valid_def allowed_pair_def Let_def)

lemma staysail_valid_other_toggle:
  "category \<notin> {''headsail'', ''downwind''} \<Longrightarrow>
   staysail_valid (toggle_sail p category v) = staysail_valid p"
  by (simp add: toggle_sail_def staysail_valid_def allowed_pair_def)

lemma staysail_valid_toggle_staysail:
  "staysail_valid (toggle_staysail frm) \<longleftrightarrow>
   staysail_mode (current_pending frm) \<or> allowed_pair (current_pending frm)"
  by (auto simp add: toggle_staysail_def current_pending_def staysail_valid_def allowed_pair_def)

text \<open>
  Claim C3, as stated: after every toggle, staysail mode is on only when the result has
  headsail \<^verbatim>\<open>JIB\<close> and downwind \<^verbatim>\<open>REACHING_SPI\<close>. It fails for the three toggles that
  do not look at the pair: \<^verbatim>\<open>toggle_staysail\<close> on a form without pending values (the
  defaults: no headsail, no downwind, staysail off) turns staysail mode on, and a
  \<^verbatim>\<open>main\<close> toggle or a toggle of an unrecognised category passes a staysail mode that is
  on without the pair through.
\<close>

theorem staysail_without_pair_counterexample:
  "staysail_mode (toggle_staysail Map.empty)
   \<and> headsail (toggle_staysail Map.empty) = ''''
   \<and> downwind (toggle_staysail Map.empty) = ''''
   \<and> staysail_mode (toggle_sail
        \<lparr>main = ''DOWN'', headsail = '''', downwind = '''', staysail_mode = True\<rparr>
        ''main'' ''FULL'')
   \<and> headsail (toggle_sail
        \<lparr>main = ''DOWN'', headsail = '''', downwind = '''', staysail_mode = True\<rparr>
        ''main'' ''FULL'') = ''''
   \<and> staysail_mode (toggle_sail
        \<lparr>main = ''DOWN'', headsail = '''', downwind = '''', staysail_mode = True\<rparr>
        ''staysail'' ''FULL'')
   \<and> headsail (toggle_sail
        \<lparr>main = ''DOWN'', headsail = '''', downwind = '''', staysail_mode = True\<rparr>
        ''staysail'' ''FULL'') = ''''"
  by (simp add: toggle_staysail_def form_get_def toggle_sail_def)

text \<open>
  Claim C3, amended. After a \<^verbatim>\<open>headsail\<close> or \<^verbatim>\<open>downwind\<close> toggle, from any
  configuration and with any value, staysail mode is on only when the result has headsail
  \<^verbatim>\<open>JIB\<close> and downwind \<^verbatim>\<open>REACHING_SPI\<close>. A toggle of any other category (\<^verbatim>\<open>main\<close> or
  unrecognised) leaves the three fields alone, so the property holds after it exactly
  when it held before. \<^verbatim>\<open>toggle_staysail\<close> flips the flag without looking at the sails,
  so the property holds after it exactly when staysail mode was on or the pair was
  present in the submitted configuration.
\<close>

theorem staysail_valid_after_toggle:
  "(category \<in> {''headsail'', ''downwind''} \<longrightarrow>
      staysail_valid (toggle_sail p category v))
   \<and> (category \<notin> {''headsail'', ''downwind''} \<longrightarrow>
      staysail_valid (toggle_sail p category v) = staysail_valid p)
   \<and> (staysail_valid (toggle_staysail frm) \<longleftrightarrow>
      staysail_mode (current_pending frm) \<or> allowed_pair (current_pending frm))"
  using staysail_valid_sail_toggle [of category p v]
    staysail_valid_other_toggle [of category p v]
    staysail_valid_toggle_staysail [of frm]
  by blast

theorem staysail_valid_after_toggle_witness:
  "staysail_mode (toggle_sail
      \<lparr>main = ''FULL'', headsail = ''JIB'', downwind = ''REACHING_SPI'', staysail_mode = True\<rparr>
      ''headsail'' ''GENOA'') = False
   \<and> staysail_mode (toggle_sail
      \<lparr>main = ''FULL'', headsail = ''JIB'', downwind = ''REACHING_SPI'', staysail_mode = True\<rparr>
      ''main'' ''FULL'') = True
   \<and> toggle_staysail
      [''pending_headsail'' \<mapsto> ''JIB'', ''pending_downwind'' \<mapsto> ''REACHING_SPI'']
     = \<lparr>main = ''DOWN'', headsail = ''JIB'', downwind = ''REACHING_SPI'', staysail_mode = True\<rparr>"
  using staysail_valid_after_toggle
    [where category = "''headsail''" and v = "''GENOA''"
       and p = "\<lparr>main = ''FULL'', headsail = ''JIB'', downwind = ''REACHING_SPI'',
                 staysail_mode = True\<rparr>"
       and frm = "[''pending_headsail'' \<mapsto> ''JIB'', ''pending_downwind'' \<mapsto> ''REACHING_SPI'']"]
    staysail_valid_after_toggle
    [where category = "''main''" and v = "''FULL''"
       and p = "\<lparr>main = ''FULL'', headsail = ''JIB'', downwind = ''REACHING_SPI'',
                 staysail_mode = True\<rparr>"
       and frm = "[''pending_headsail'' \<mapsto> ''JIB'', ''pending_downwind'' \<mapsto> ''REACHING_SPI'']"]
  by (simp add: toggle_sail_def toggle_staysail_def form_get_def)

section \<open>Toggling twice\<close>

lemma toggle_main_twice:
  "toggle_sail (toggle_sail p ''main'' v) ''main'' v = p \<longleftrightarrow>
   v = main p \<or> main p = ''DOWN''"
proof (cases p)
  case (fields m h d s)
  show ?thesis
    unfolding fields
    by (cases "v = m"; cases "m = ''DOWN''"; simp add: toggle_sail_def; blast)
qed

lemma toggle_headsail_twice:
  "toggle_sail (toggle_sail p ''headsail'' v) ''headsail'' v = p \<longleftrightarrow>
   \<not> staysail_mode p \<and> (v = headsail p \<or> headsail p = '''')
   \<and> (v = '''' \<or> downwind p = '''' \<or> (v = ''JIB'' \<and> downwind p = ''REACHING_SPI''))"
proof (cases p)
  case (fields m h d s)
  show ?thesis
    unfolding fields
    by (cases "v = h"; cases "v = ''''"; cases "d = ''''"; cases "v = ''JIB''";
        cases "d = ''REACHING_SPI''"; simp add: toggle_sail_def Let_def; blast)
qed

lemma toggle_downwind_twice:
  "toggle_sail (toggle_sail p ''downwind'' v) ''downwind'' v = p \<longleftrightarrow>
   \<not> staysail_mode p \<and> (v = downwind p \<or> downwind p = '''')
   \<and> (v = '''' \<or> headsail p = '''' \<or> (v = ''REACHING_SPI'' \<and> headsail p = ''JIB''))"
proof (cases p)
  case (fields m h d s)
  show ?thesis
    unfolding fields
    by (cases "v = d"; cases "v = ''''"; cases "h = ''''"; cases "v = ''REACHING_SPI''";
        cases "h = ''JIB''"; simp add: toggle_sail_def Let_def; blast)
qed

text \<open>
  Claim C5, as stated: toggling twice with the same category and value gives the
  original configuration back, for \<^verbatim>\<open>main\<close> and for the branches of \<^verbatim>\<open>headsail\<close> and
  \<^verbatim>\<open>downwind\<close> that do not clear the other sail. It fails for \<^verbatim>\<open>main\<close> when the value
  is a different main state from the current one (the first toggle selects it, the second
  deselects to the sentinel), and it fails on the allowed pair with staysail mode on,
  where both headsail toggles keep the downwind sail but the deselecting one turns
  staysail mode off.
\<close>

theorem toggle_twice_counterexample:
  "toggle_sail (toggle_sail
      \<lparr>main = ''REEF1'', headsail = '''', downwind = '''', staysail_mode = False\<rparr>
      ''main'' ''FULL'') ''main'' ''FULL''
     = \<lparr>main = ''DOWN'', headsail = '''', downwind = '''', staysail_mode = False\<rparr>
   \<and> toggle_sail (toggle_sail
      \<lparr>main = ''FULL'', headsail = ''JIB'', downwind = ''REACHING_SPI'', staysail_mode = True\<rparr>
      ''headsail'' ''JIB'') ''headsail'' ''JIB''
     = \<lparr>main = ''FULL'', headsail = ''JIB'', downwind = ''REACHING_SPI'', staysail_mode = False\<rparr>"
  by (simp add: toggle_sail_def)

text \<open>
  Claim C5, amended. Toggling \<^verbatim>\<open>main\<close> twice with one value gives the original
  configuration back exactly when the original main is that value or the sentinel.
  Toggling \<^verbatim>\<open>headsail\<close> twice with one value gives the original back exactly when
  staysail mode is off, the original headsail is that value or empty, and the value is
  empty, or the downwind sail is empty, or value and downwind sail are the allowed pair
  (so that selecting the value does not clear the downwind sail). For \<^verbatim>\<open>downwind\<close> the
  same holds with the roles swapped.
\<close>

theorem toggle_twice_restores:
  "(toggle_sail (toggle_sail p ''main'' v) ''main'' v = p \<longleftrightarrow>
      v = main p \<or> main p = ''DOWN'')
   \<and> (toggle_sail (toggle_sail p ''headsail'' v) ''headsail'' v = p \<longleftrightarrow>
      \<not> staysail_mode p \<and> (v = headsail p \<or> headsail p = '''')
      \<and> (v = '''' \<or> downwind p = '''' \<or> (v = ''JIB'' \<and> downwind p = ''REACHING_SPI'')))
   \<and> (toggle_sail (toggle_sail p ''downwind'' v) ''downwind'' v = p \<longleftrightarrow>
      \<not> staysail_mode p \<and> (v = downwind p \<or> downwind p = '''')
      \<and> (v = '''' \<or> headsail p = '''' \<or> (v = ''REACHING_SPI'' \<and> headsail p = ''JIB'')))"
  by (intro conjI toggle_main_twice toggle_headsail_twice toggle_downwind_twice)

theorem toggle_twice_restores_witness:
  "toggle_sail (toggle_sail
      \<lparr>main = ''DOWN'', headsail = '''', downwind = ''REACHING_SPI'', staysail_mode = False\<rparr>
      ''main'' ''FULL'') ''main'' ''FULL''
     = \<lparr>main = ''DOWN'', headsail = '''', downwind = ''REACHING_SPI'', staysail_mode = False\<rparr>
   \<and> toggle_sail (toggle_sail
      \<lparr>main = ''DOWN'', headsail = '''', downwind = ''REACHING_SPI'', staysail_mode = False\<rparr>
      ''headsail'' ''JIB'') ''headsail'' ''JIB''
     = \<lparr>main = ''DOWN'', headsail = '''', downwind = ''REACHING_SPI'', staysail_mode = False\<rparr>"
  using toggle_twice_restores
    [where v = "''FULL''"
       and p = "\<lparr>main = ''DOWN'', headsail = '''', downwind = ''REACHING_SPI'',
                 staysail_mode = False\<rparr>"]
    toggle_twice_restores
    [where v = "''JIB''"
       and p = "\<lparr>main = ''DOWN'', headsail = '''', downwind = ''REACHING_SPI'',
                 staysail_mode = False\<rparr>"]
  by simp

section \<open>Pending against committed\<close>

text \<open>
  Claim C7. \<^verbatim>\<open>has_changes\<close> is true exactly when the pending and the committed
  configuration differ in one of \<open>main\<close>, \<open>headsail\<close>, \<open>downwind\<close> and
  \<open>staysail_mode\<close>. A configuration has no changes against itself, and two
  configurations with the same four fields have none whatever else they carry (a comment,
  a timestamp).
\<close>

theorem has_changes_iff:
  "(has_changes pnd committed \<longleftrightarrow>
      (main pnd, headsail pnd, downwind pnd, staysail_mode pnd)
      \<noteq> (main committed, headsail committed, downwind committed, staysail_mode committed))
   \<and> \<not> has_changes a a
   \<and> \<not> has_changes (pending.extend b x) (pending.extend b y)
   \<and> \<not> has_changes (cfg\<lparr>comment := cmt\<rparr>) cfg"
  by (auto simp add: has_changes_def pending.defs)

theorem has_changes_iff_witness:
  "has_changes
     \<lparr>main = ''FULL'', headsail = ''JIB'', downwind = '''', staysail_mode = False\<rparr>
     \<lparr>main = ''FULL'', headsail = ''JIB'', downwind = '''', staysail_mode = True,
      comment = ''''\<rparr> = True
   \<and> has_changes
     \<lparr>main = ''FULL'', headsail = ''JIB'', downwind = '''', staysail_mode = False\<rparr>
     \<lparr>main = ''FULL'', headsail = ''JIB'', downwind = '''', staysail_mode = False,
      comment = ''reefed at dusk''\<rparr> = False"
  using has_changes_iff
    [where pnd = "\<lparr>main = ''FULL'', headsail = ''JIB'', downwind = '''',
                   staysail_mode = False\<rparr>"
       and committed = "\<lparr>main = ''FULL'', headsail = ''JIB'', downwind = '''',
                   staysail_mode = True, comment = ''''\<rparr>"
       and a = "\<lparr>main = ''FULL'', headsail = ''JIB'', downwind = '''',
                   staysail_mode = False\<rparr>"
       and b = "\<lparr>main = ''FULL'', headsail = ''JIB'', downwind = '''',
                   staysail_mode = False\<rparr>"
       and x = "()" and y = "()" and cmt = "''reefed at dusk''"
       and cfg = "\<lparr>main = ''FULL'', headsail = ''JIB'', downwind = '''',
                   staysail_mode = False, comment = ''''\<rparr>"]
    has_changes_iff
    [where pnd = "\<lparr>main = ''FULL'', headsail = ''JIB'', downwind = '''',
                   staysail_mode = False\<rparr>"
       and committed = "\<lparr>main = ''FULL'', headsail = ''JIB'', downwind = '''',
                   staysail_mode = False, comment = ''reefed at dusk''\<rparr>"
       and a = "\<lparr>main = ''FULL'', headsail = ''JIB'', downwind = '''',
                   staysail_mode = False\<rparr>"
       and b = "\<lparr>main = ''FULL'', headsail = ''JIB'', downwind = '''',
                   staysail_mode = False\<rparr>"
       and x = "()" and y = "()" and cmt = "''reefed at dusk''"
       and cfg = "\<lparr>main = ''FULL'', headsail = ''JIB'', downwind = '''',
                   staysail_mode = False, comment = ''''\<rparr>"]
  by simp

section \<open>The summary line and the text None\<close>

lemma format_config_summary_main_None:
  "format_config_summary tbl (c\<lparr>main := ''None''\<rparr>)
   = (if (headsail c = '''' \<or> headsail c = ''None'')
         \<and> (downwind c = '''' \<or> downwind c = ''None'')
      then ''All sails down''
      else join '' + ''
        (''Main: DOWN''
         # (if headsail c = '''' \<or> headsail c = ''None'' then []
            else [display_get tbl (headsail c) (headsail c)
                  @ (if staysail_mode c then '' (S)'' else '''')])
         @ (if downwind c = '''' \<or> downwind c = ''None'' then []
            else [display_get tbl (downwind c) (downwind c)])))"
  by (simp add: format_config_summary_def or_default_def Let_def)

lemma format_config_summary_headsail_None:
  "format_config_summary tbl (c\<lparr>headsail := ''None''\<rparr>)
   = (if (main c = '''' \<or> main c = ''DOWN'' \<or> main c = ''None'')
         \<and> (downwind c = '''' \<or> downwind c = ''None'')
      then ''All sails down''
      else join '' + ''
        ((if main c = '''' \<or> main c = ''DOWN'' \<or> main c = ''None''
          then ''Main: DOWN'' else ''Main: '' @ main c)
         # (if downwind c = '''' \<or> downwind c = ''None'' then []
            else [display_get tbl (downwind c) (downwind c)])))"
  by (simp add: format_config_summary_def or_default_def Let_def)

lemma format_config_summary_downwind_None:
  "format_config_summary tbl (c\<lparr>downwind := ''None''\<rparr>)
   = (if (main c = '''' \<or> main c = ''DOWN'' \<or> main c = ''None'')
         \<and> (headsail c = '''' \<or> headsail c = ''None'')
      then ''All sails down''
      else join '' + ''
        ((if main c = '''' \<or> main c = ''DOWN'' \<or> main c = ''None''
          then ''Main: DOWN'' else ''Main: '' @ main c)
         # (if headsail c = '''' \<or> headsail c = ''None'' then []
            else [display_get tbl (headsail c) (headsail c)
                  @ (if staysail_mode c then '' (S)'' else '''')])))"
  by (simp add: format_config_summary_def or_default_def Let_def)

lemma format_config_summary_None_as_absent:
  "format_config_summary tbl (c\<lparr>main := ''None''\<rparr>)
     = format_config_summary tbl (c\<lparr>main := ''DOWN''\<rparr>)
   \<and> format_config_summary tbl (c\<lparr>headsail := ''None''\<rparr>)
     = format_config_summary tbl (c\<lparr>headsail := ''''\<rparr>)
   \<and> format_config_summary tbl (c\<lparr>downwind := ''None''\<rparr>)
     = format_config_summary tbl (c\<lparr>downwind := ''''\<rparr>)"
  by (simp add: format_config_summary_def or_default_def Let_def)

text \<open>
  Claim C10. The summary reads the text \<^verbatim>\<open>None\<close> as absence. With a main of \<^verbatim>\<open>None\<close>
  the summary is \<^verbatim>\<open>All sails down\<close> when neither sail is set (non-empty and not
  \<^verbatim>\<open>None\<close>), and otherwise the part \<^verbatim>\<open>Main: DOWN\<close> joined with the parts of the sails
  that are set. With a headsail of \<^verbatim>\<open>None\<close> the summary has no headsail part: it is
  \<^verbatim>\<open>All sails down\<close> when main is down (the sentinel, empty or \<^verbatim>\<open>None\<close>) and the
  downwind sail is not set, and otherwise the main part joined with the downwind part if
  there is one. With a downwind of \<^verbatim>\<open>None\<close> it has no downwind part, in the same way.
  In each case the summary is the one that the sentinel, or the empty string, gives in
  place of \<^verbatim>\<open>None\<close>.
\<close>

theorem format_config_summary_None:
  "format_config_summary tbl (c\<lparr>main := ''None''\<rparr>)
     = (if (headsail c = '''' \<or> headsail c = ''None'')
           \<and> (downwind c = '''' \<or> downwind c = ''None'')
        then ''All sails down''
        else join '' + ''
          (''Main: DOWN''
           # (if headsail c = '''' \<or> headsail c = ''None'' then []
              else [display_get tbl (headsail c) (headsail c)
                    @ (if staysail_mode c then '' (S)'' else '''')])
           @ (if downwind c = '''' \<or> downwind c = ''None'' then []
              else [display_get tbl (downwind c) (downwind c)])))
   \<and> format_config_summary tbl (c\<lparr>headsail := ''None''\<rparr>)
     = (if (main c = '''' \<or> main c = ''DOWN'' \<or> main c = ''None'')
           \<and> (downwind c = '''' \<or> downwind c = ''None'')
        then ''All sails down''
        else join '' + ''
          ((if main c = '''' \<or> main c = ''DOWN'' \<or> main c = ''None''
            then ''Main: DOWN'' else ''Main: '' @ main c)
           # (if downwind c = '''' \<or> downwind c = ''None'' then []
              else [display_get tbl (downwind c) (downwind c)])))
   \<and> format_config_summary tbl (c\<lparr>downwind := ''None''\<rparr>)
     = (if (main c = '''' \<or> main c = ''DOWN'' \<or> main c = ''None'')
           \<and> (headsail c = '''' \<or> headsail c = ''None'')
        then ''All sails down''
        else join '' + ''
          ((if main c = '''' \<or> main c = ''DOWN'' \<or> main c = ''None''
            then ''Main: DOWN'' else ''Main: '' @ main c)
           # (if headsail c = '''' \<or> headsail c = ''None'' then []
              else [display_get tbl (headsail c) (headsail c)
                    @ (if staysail_mode c then '' (S)'' else '''')])))
   \<and> format_config_summary tbl (c\<lparr>main := ''None''\<rparr>)
     = format_config_summary tbl (c\<lparr>main := ''DOWN''\<rparr>)
   \<and> format_config_summary tbl (c\<lparr>headsail := ''None''\<rparr>)
     = format_config_summary tbl (c\<lparr>headsail := ''''\<rparr>)
   \<and> format_config_summary tbl (c\<lparr>downwind := ''None''\<rparr>)
     = format_config_summary tbl (c\<lparr>downwind := ''''\<rparr>)"
  using format_config_summary_main_None [of tbl c]
    format_config_summary_headsail_None [of tbl c]
    format_config_summary_downwind_None [of tbl c]
    format_config_summary_None_as_absent [of tbl c]
  by (simp only: simp_thms)

theorem format_config_summary_None_witness:
  "format_config_summary [''JIB'' \<mapsto> ''Jib'']
     \<lparr>main = ''None'', headsail = '''', downwind = ''ASYM'', staysail_mode = False\<rparr>
   = ''Main: DOWN + ASYM''
   \<and> format_config_summary [''JIB'' \<mapsto> ''Jib'']
     \<lparr>main = ''None'', headsail = ''JIB'', downwind = ''None'', staysail_mode = True\<rparr>
   = ''Main: DOWN + Jib (S)''
   \<and> format_config_summary [''JIB'' \<mapsto> ''Jib'']
     \<lparr>main = ''FULL'', headsail = ''None'', downwind = ''ASYM'', staysail_mode = True\<rparr>
   = ''Main: FULL + ASYM''
   \<and> format_config_summary [''JIB'' \<mapsto> ''Jib'']
     \<lparr>main = ''FULL'', headsail = ''JIB'', downwind = ''None'', staysail_mode = False\<rparr>
   = ''Main: FULL + Jib''
   \<and> format_config_summary [''JIB'' \<mapsto> ''Jib'']
     \<lparr>main = ''None'', headsail = ''None'', downwind = ''None'', staysail_mode = False\<rparr>
   = ''All sails down''"
  using format_config_summary_None
    [where tbl = "[''JIB'' \<mapsto> ''Jib'']"
       and c = "\<lparr>main = ''None'', headsail = '''', downwind = ''ASYM'',
                 staysail_mode = False\<rparr>"]
    format_config_summary_None
    [where tbl = "[''JIB'' \<mapsto> ''Jib'']"
       and c = "\<lparr>main = ''None'', headsail = ''JIB'', downwind = ''None'',
                 staysail_mode = True\<rparr>"]
    format_config_summary_None
    [where tbl = "[''JIB'' \<mapsto> ''Jib'']"
       and c = "\<lparr>main = ''FULL'', headsail = ''None'', downwind = ''ASYM'',
                 staysail_mode = True\<rparr>"]
    format_config_summary_None
    [where tbl = "[''JIB'' \<mapsto> ''Jib'']"
       and c = "\<lparr>main = ''FULL'', headsail = ''JIB'', downwind = ''None'',
                 staysail_mode = False\<rparr>"]
    format_config_summary_None
    [where tbl = "[''JIB'' \<mapsto> ''Jib'']"
       and c = "\<lparr>main = ''None'', headsail = ''None'', downwind = ''None'',
                 staysail_mode = False\<rparr>"]
  by (simp add: display_get_def)

section \<open>The summary line against its specification\<close>

text \<open>
  Claim C8, as stated: the summary is \<^verbatim>\<open>All sails down\<close> when main is the sentinel and
  headsail and downwind are unset, and otherwise the parts joined with \<^verbatim>\<open> + \<close>, the
  first of them for main. It fails where a field is the text \<^verbatim>\<open>None\<close> or main is empty:
  with main \<^verbatim>\<open>None\<close>, or empty, and no sails the code answers \<^verbatim>\<open>All sails down\<close>
  though main is not the sentinel, and a headsail \<^verbatim>\<open>None\<close> is non-empty and yet
  contributes no part.
\<close>

theorem summary_as_specified_counterexample:
  "format_config_summary Map.empty
     \<lparr>main = ''None'', headsail = '''', downwind = '''', staysail_mode = False\<rparr>
   = ''All sails down''
   \<and> summary_as_specified Map.empty
     \<lparr>main = ''None'', headsail = '''', downwind = '''', staysail_mode = False\<rparr>
   = ''Main: None''
   \<and> format_config_summary Map.empty
     \<lparr>main = ''FULL'', headsail = ''None'', downwind = '''', staysail_mode = False\<rparr>
   = ''Main: FULL''
   \<and> summary_as_specified Map.empty
     \<lparr>main = ''FULL'', headsail = ''None'', downwind = '''', staysail_mode = False\<rparr>
   = ''Main: FULL + None''
   \<and> format_config_summary Map.empty
     \<lparr>main = '''', headsail = '''', downwind = '''', staysail_mode = False\<rparr>
   = ''All sails down''
   \<and> summary_as_specified Map.empty
     \<lparr>main = '''', headsail = '''', downwind = '''', staysail_mode = False\<rparr>
   = ''Main: ''"
  by (simp add: format_config_summary_def summary_as_specified_def or_default_def
      display_get_def Let_def)

text \<open>
  Claim C8, amended. The summary is \<^verbatim>\<open>All sails down\<close> when main is the sentinel, empty
  or \<^verbatim>\<open>None\<close> and headsail and downwind are each empty or \<^verbatim>\<open>None\<close>. Otherwise it joins
  with \<^verbatim>\<open> + \<close> the parts: \<^verbatim>\<open>Main: DOWN\<close> when main is the sentinel, empty or \<^verbatim>\<open>None\<close>
  and \<^verbatim>\<open>Main: \<close> followed by main when it is not; the display name of the headsail (the
  identifier itself when the table has no entry for it), followed by \<^verbatim>\<open> (S)\<close> exactly
  when staysail mode is on, when the headsail is neither empty nor \<^verbatim>\<open>None\<close>; and the
  display name of the downwind sail, with no suffix, when it is neither empty nor
  \<^verbatim>\<open>None\<close>. That is: the summary is the specified one of the configuration with
  \<^verbatim>\<open>None\<close> read as absence.
\<close>

theorem format_config_summary_as_specified:
  "format_config_summary tbl c = summary_as_specified tbl (none_as_absent c)"
  by (simp add: format_config_summary_def summary_as_specified_def none_as_absent_def
      or_default_def Let_def)

theorem format_config_summary_as_specified_witness:
  "format_config_summary [''JIB'' \<mapsto> ''Jib'', ''REACHING_SPI'' \<mapsto> ''Reaching Spi'']
     \<lparr>main = ''FULL'', headsail = ''JIB'', downwind = ''REACHING_SPI'', staysail_mode = True\<rparr>
   = ''Main: FULL + Jib (S) + Reaching Spi''
   \<and> format_config_summary [''JIB'' \<mapsto> ''Jib'', ''REACHING_SPI'' \<mapsto> ''Reaching Spi'']
     \<lparr>main = ''DOWN'', headsail = '''', downwind = '''', staysail_mode = False\<rparr>
   = ''All sails down''
   \<and> format_config_summary [''JIB'' \<mapsto> ''Jib'', ''REACHING_SPI'' \<mapsto> ''Reaching Spi'']
     \<lparr>main = ''FULL'', headsail = ''GENOA'', downwind = '''', staysail_mode = False\<rparr>
   = ''Main: FULL + GENOA''"
  using format_config_summary_as_specified
    [where tbl = "[''JIB'' \<mapsto> ''Jib'', ''REACHING_SPI'' \<mapsto> ''Reaching Spi'']"
       and c = "\<lparr>main = ''FULL'', headsail = ''JIB'', downwind = ''REACHING_SPI'',
                 staysail_mode = True\<rparr>"]
  by (simp add: format_config_summary_def or_default_def display_get_def Let_def)

end
